theory Spec2Isabelle
  imports Main "HOL-Library.Word" "HOL-Library.AList"
begin

unbundle bit_operations_syntax

section \<open>JavaScript strings\<close>

text \<open>
  A JavaScript string is a sequence of 16-bit code units. Literals of the source are
  written \<open>js ''...''\<close>; the double quote and the backslash have names of their own.
\<close>

type_synonym codeUnit = "16 word"
type_synonym jsString = "codeUnit list"

definition js :: "string \<Rightarrow> jsString" where
  "js s = map (\<lambda>c. of_nat (of_char c)) s"

definition dquote :: codeUnit where
  "dquote = 0x22"

definition backslash :: codeUnit where
  "backslash = 0x5C"

definition space :: codeUnit where
  "space = 0x20"

definition comma :: codeUnit where
  "comma = 0x2C"

definition newline :: codeUnit where
  "newline = 0x0A"

text \<open>
  \<open>String.prototype.trim\<close> removes WhiteSpace and LineTerminator code units from both
  ends: TAB, LF, VT, FF, CR, SP, NBSP, U+1680, U+2000..U+200A, U+2028, U+2029, U+202F,
  U+205F, U+3000 and U+FEFF. The same set is the regular expression class \<open>\s\<close>.
\<close>

definition isWhiteSpace :: "codeUnit \<Rightarrow> bool" where
  "isWhiteSpace c =
     (c = 0x09 \<or> c = 0x0A \<or> c = 0x0B \<or> c = 0x0C \<or> c = 0x0D \<or> c = 0x20 \<or> c = 0xA0
      \<or> c = 0x1680 \<or> (0x2000 \<le> c \<and> c \<le> 0x200A) \<or> c = 0x2028 \<or> c = 0x2029
      \<or> c = 0x202F \<or> c = 0x205F \<or> c = 0x3000 \<or> c = 0xFEFF)"

definition trim :: "jsString \<Rightarrow> jsString" where
  "trim s = rev (dropWhile isWhiteSpace (rev (dropWhile isWhiteSpace s)))"

text \<open>
  \<open>s.split(",")\<close>: the pieces between the separators, an empty piece where two
  separators meet or the string starts or ends with one; \<open>"".split(",")\<close> is \<open>[""]\<close>.
\<close>

fun split_on :: "'a \<Rightarrow> 'a list \<Rightarrow> 'a list list" where
  "split_on sep [] = [[]]"
| "split_on sep (c # cs) =
     (if c = sep then [] # split_on sep cs
      else (case split_on sep cs of [] \<Rightarrow> [[c]] | p # ps \<Rightarrow> (c # p) # ps))"

text \<open>\<open>xs.join(sep)\<close>.\<close>

fun join :: "'a list \<Rightarrow> 'a list list \<Rightarrow> 'a list" where
  "join sep [] = []"
| "join sep [x] = x"
| "join sep (x # y # ys) = x @ sep @ join sep (y # ys)"

text \<open>
  \<open>s.replace(/pat/g, "")\<close> for a literal pattern: one pass from the left; where the
  pattern starts it is skipped (the counter says how many code units of a match are
  still to skip) and the scan goes on after it, so what the removal joins together
  is not looked at again.
\<close>

fun removeAll_from :: "nat \<Rightarrow> 'a list \<Rightarrow> 'a list \<Rightarrow> 'a list" where
  "removeAll_from skip pat [] = []"
| "removeAll_from (Suc skip) pat (c # cs) = removeAll_from skip pat cs"
| "removeAll_from 0 pat (c # cs) =
     (if pat \<noteq> [] \<and> take (length pat) (c # cs) = pat
      then removeAll_from (length pat - 1) pat cs
      else c # removeAll_from 0 pat cs)"

definition replaceAll_empty :: "'a list \<Rightarrow> 'a list \<Rightarrow> 'a list" where
  "replaceAll_empty pat s = removeAll_from 0 pat s"

text \<open>Whether \<open>pat\<close> occurs in \<open>s\<close> (\<open>s.includes(pat)\<close>).\<close>

fun includesStr :: "'a list \<Rightarrow> 'a list \<Rightarrow> bool" where
  "includesStr [] pat = (pat = [])"
| "includesStr (c # cs) pat = (take (length pat) (c # cs) = pat \<or> includesStr cs pat)"

section \<open>The cssesc package\<close>

text \<open>
  \<open>cssesc(string, {quotes: "double", wrap: true})\<close>, the call tidyCss makes. The package
  is a dependency, not part of the repository; this is its algorithm for these options
  (\<open>isIdentifier\<close> and \<open>escapeEverything\<close> are off):
  \<^item> a code unit outside the printable ASCII range becomes a backslash, its code point
    in upper-case hexadecimal and a space (a high surrogate followed by a low surrogate
    is one code point);
  \<^item> a backslash and a double quote get a backslash in front;
  \<^item> every other code unit stays;
  \<^item> then the space after a hexadecimal escape is removed where it is not needed:
    \<open>output.replace(/(^|\\+)?(\\[A-F0-9]{1,6})\x20(?![a-fA-F0-9\x20])/g, ...)\<close> keeps the
    space when the escape is preceded by an odd number of backslashes;
  \<^item> the result is wrapped in double quotes.
\<close>

definition hexDigit :: "nat \<Rightarrow> codeUnit" where
  "hexDigit d = (if d < 10 then of_nat (0x30 + d) else of_nat (0x41 + (d - 10)))"

fun toHexUpper :: "nat \<Rightarrow> jsString" where
  "toHexUpper n =
     (if n < 16 then [hexDigit n] else toHexUpper (n div 16) @ [hexDigit (n mod 16)])"

declare toHexUpper.simps [simp del]

fun escapeUnits :: "jsString \<Rightarrow> jsString" where
  "escapeUnits [] = []"
| "escapeUnits (c # cs) =
     (if c < 0x20 \<or> 0x7E < c then
        (case cs of
           e # es \<Rightarrow>
             if 0xD800 \<le> c \<and> c \<le> 0xDBFF \<and> e AND 0xFC00 = 0xDC00
             then backslash #
                    toHexUpper (unat (c AND 0x3FF) * 1024 + unat (e AND 0x3FF) + 0x10000)
                    @ space # escapeUnits es
             else backslash # toHexUpper (unat c) @ space # escapeUnits cs
         | [] \<Rightarrow> backslash # toHexUpper (unat c) @ [space])
      else if c = backslash \<or> c = dquote then backslash # c # escapeUnits cs
      else c # escapeUnits cs)"

definition isUpperHex :: "codeUnit \<Rightarrow> bool" where
  "isUpperHex c = ((0x30 \<le> c \<and> c \<le> 0x39) \<or> (0x41 \<le> c \<and> c \<le> 0x46))"

definition isHexOrSpace :: "codeUnit \<Rightarrow> bool" where
  "isHexOrSpace c = (isUpperHex c \<or> (0x61 \<le> c \<and> c \<le> 0x66) \<or> c = 0x20)"

text \<open>
  A match of the excessive-space expression at the start of \<open>s\<close>: \<open>k\<close> backslashes
  (all but the last are group 1), \<open>m\<close> hexadecimal digits with \<open>1 \<le> m \<le> 6\<close>, a space,
  and then the end of the string or a code unit that is neither a hexadecimal digit
  nor a space.
\<close>

definition excessiveSpaceMatch :: "jsString \<Rightarrow> (nat \<times> nat) option" where
  "excessiveSpaceMatch s =
     (let k = length (takeWhile (\<lambda>c. c = backslash) s);
          m = length (takeWhile isUpperHex (drop k s))
      in if 1 \<le> k \<and> 1 \<le> m \<and> m \<le> 6 \<and>
            (case drop (k + m) s of
               [] \<Rightarrow> False
             | sp # t \<Rightarrow> sp = space \<and> (case t of [] \<Rightarrow> True | d # _ \<Rightarrow> \<not> isHexOrSpace d))
         then Some (k, m) else None)"

fun removeExcessiveSpaces :: "nat \<Rightarrow> jsString \<Rightarrow> jsString" where
  "removeExcessiveSpaces skip [] = []"
| "removeExcessiveSpaces (Suc skip) (c # cs) = removeExcessiveSpaces skip cs"
| "removeExcessiveSpaces 0 (c # cs) =
     (case excessiveSpaceMatch (c # cs) of
        None \<Rightarrow> c # removeExcessiveSpaces 0 cs
      | Some (k, m) \<Rightarrow>
          take (k + m) (c # cs) @ (if odd k then [] else [space])
            @ removeExcessiveSpaces (k + m) cs)"

definition cssEsc :: "jsString \<Rightarrow> jsString" where
  "cssEsc s = dquote # removeExcessiveSpaces 0 (escapeUnits s) @ [dquote]"

section \<open>Font family names (tidyCss, lines 74 to 91)\<close>

text \<open>The character class \<open>[a-zA-Z-]\<close>.\<close>

definition isPlainChar :: "codeUnit \<Rightarrow> bool" where
  "isPlainChar c = ((0x41 \<le> c \<and> c \<le> 0x5A) \<or> (0x61 \<le> c \<and> c \<le> 0x7A) \<or> c = 0x2D)"

text \<open>\<open>/[^a-zA-Z-]+/.test(s)\<close>: some code unit of \<open>s\<close> is outside the class.\<close>

definition needsQuoting :: "jsString \<Rightarrow> bool" where
  "needsQuoting s = list_ex (\<lambda>c. \<not> isPlainChar c) s"

definition styleClose :: jsString where
  "styleClose = js ''</style>''"

text \<open>The callback of \<open>fonts.map\<close>.\<close>

definition parseFont :: "jsString \<Rightarrow> jsString" where
  "parseFont font =
     (if needsQuoting (trim font)
      then cssEsc (trim (replaceAll_empty styleClose font))
      else trim font)"

text \<open>\<open>value.split(",").map(...).join(", ")\<close>.\<close>

definition parseFontFamily :: "jsString \<Rightarrow> jsString" where
  "parseFontFamily v = join (js '', '') (map parseFont (split_on comma v))"

section \<open>The CSSOM rule model\<close>

text \<open>
  A \<open>CSSStyleDeclaration\<close> of the cssom package: the indexed entries \<open>this[0..length-1]\<close>
  are property names, \<open>this[name]\<close> is the value and \<open>this._importants[name]\<close> the
  priority (empty when there is none). Property names are taken not to clash with the
  object's own members.
\<close>

record cssStyle =
  propNames :: "jsString list"
  propValues :: "(jsString \<times> jsString) list"
  importants :: "(jsString \<times> jsString) list"

text \<open>\<open>style[name]\<close>: \<open>None\<close> is \<open>undefined\<close>.\<close>

definition styleGet :: "cssStyle \<Rightarrow> jsString \<Rightarrow> jsString option" where
  "styleGet st name = map_of (propValues st) name"

text \<open>JavaScript truthiness of a string or \<open>undefined\<close>.\<close>

definition truthy :: "jsString option \<Rightarrow> bool" where
  "truthy v = (case v of None \<Rightarrow> False | Some s \<Rightarrow> s \<noteq> [])"

text \<open>
  \<open>setProperty(name, value)\<close> with no priority. The name gets a new index unless the
  property has a truthy value and an index already; so a property whose value is the
  empty string is entered a second time.
\<close>

definition setProperty :: "jsString \<Rightarrow> jsString \<Rightarrow> cssStyle \<Rightarrow> cssStyle" where
  "setProperty name v st =
     \<lparr> propNames =
         (if truthy (styleGet st name) \<and> name \<in> set (propNames st) then propNames st
          else propNames st @ [name]),
       propValues = AList.update name v (propValues st),
       importants = AList.update name [] (importants st) \<rparr>"

definition getPropertyValue :: "cssStyle \<Rightarrow> jsString \<Rightarrow> jsString" where
  "getPropertyValue st name = (case styleGet st name of None \<Rightarrow> [] | Some v \<Rightarrow> v)"

definition getPropertyPriority :: "cssStyle \<Rightarrow> jsString \<Rightarrow> jsString" where
  "getPropertyPriority st name = (case map_of (importants st) name of None \<Rightarrow> [] | Some p \<Rightarrow> p)"

definition declText :: "cssStyle \<Rightarrow> jsString \<Rightarrow> jsString" where
  "declText st name =
     name @ js '': '' @ getPropertyValue st name
       @ (if getPropertyPriority st name = [] then []
          else js '' !'' @ getPropertyPriority st name)
       @ js '';''"

definition style_cssText :: "cssStyle \<Rightarrow> jsString" where
  "style_cssText st = join (js '' '') (map (declText st) (propNames st))"

text \<open>
  The rules a parsed sheet holds: a \<open>CSSStyleRule\<close> with its selector text and
  declarations, or a rule of another kind (\<open>@media\<close>, \<open>@import\<close>, \<open>@font-face\<close>,
  \<open>@keyframes\<close>, \<open>@supports\<close>, ...), kept as its text. The other kinds have no
  \<open>style\<close> or no \<open>selectorText\<close>.
\<close>

datatype cssRule =
  StyleRule jsString cssStyle
| AtRule jsString

fun rule_cssText :: "cssRule \<Rightarrow> jsString" where
  "rule_cssText (StyleRule sel st) =
     (if sel \<noteq> [] then sel @ js '' {'' @ style_cssText st @ js ''}'' else [])"
| "rule_cssText (AtRule t) = t"

text \<open>\<open>CSSStyleSheet.prototype.toString\<close>.\<close>

definition sheet_toString :: "cssRule list \<Rightarrow> jsString" where
  "sheet_toString rules = concat (map (\<lambda>r. rule_cssText r @ [newline]) rules)"

text \<open>
  The declarations CSSOM.parse builds for a rule body \<open>name: value; ...\<close>: one
  \<open>setProperty\<close> for each declaration, in order.
\<close>

definition emptyStyle :: cssStyle where
  "emptyStyle = \<lparr> propNames = [], propValues = [], importants = [] \<rparr>"

definition parsedStyle :: "(jsString \<times> jsString) list \<Rightarrow> cssStyle" where
  "parsedStyle decls = foldl (\<lambda>st (name, v). setProperty name v st) emptyStyle decls"

text \<open>\<open>rule.style[name]\<close> of a style rule.\<close>

fun declaredValue :: "jsString \<Rightarrow> cssRule \<Rightarrow> jsString option" where
  "declaredValue name (StyleRule sel st) = styleGet st name"
| "declaredValue name (AtRule t) = None"


section \<open>tidyCss: the pass over the rules (lines 60 to 109)\<close>

datatype error =
  TypeError
| SyntaxError
| UnsupportedMediaType
| NotAcceptable
| BadRequest
| ConverterError jsString
| ENOENT

definition fontFamily :: jsString where
  "fontFamily = js ''font-family''"

definition pageBreakInside :: jsString where
  "pageBreakInside = js ''page-break-inside''"

definition backgroundColorProp :: jsString where
  "backgroundColorProp = js ''background-color''"

text \<open>
  The body of \<open>styleObj.cssRules.forEach\<close> has three statements, each an \<open>if\<close> that
  updates \<open>styleRule.style\<close>. \<open>newFonts\<close> and \<open>newBackgroundColor\<close> are \<open>None\<close> when
  undefined; \<open>n\<close> is \<open>styles.length\<close>, the number of style elements of the document.

  "Replace default font" (lines 62 to 67):
\<close>

definition replaceDefaultFont :: "jsString option \<Rightarrow> nat \<Rightarrow> cssStyle \<Rightarrow> cssStyle" where
  "replaceDefaultFont newFonts n st =
     (if truthy newFonts \<and> (truthy (styleGet st fontFamily) \<or> n = 1)
      then setProperty fontFamily (case newFonts of None \<Rightarrow> [] | Some f \<Rightarrow> f) st
      else st)"

text \<open>"Font family names ... should be quoted" (lines 74 to 91):\<close>

definition quoteFontFamily :: "cssStyle \<Rightarrow> cssStyle" where
  "quoteFontFamily st =
     (if truthy (styleGet st fontFamily)
      then setProperty fontFamily (parseFontFamily (getPropertyValue st fontFamily)) st
      else st)"

text \<open>"Stop pages overrunning the next page" and "Replace default color" (lines 98 to 108):\<close>

definition avoidPageBreak :: "jsString option \<Rightarrow> jsString \<Rightarrow> cssStyle \<Rightarrow> cssStyle" where
  "avoidPageBreak newBackgroundColor sel st =
     (if take 3 sel = js ''div''
      then (let st' = setProperty pageBreakInside (js ''avoid'') st
            in if truthy newBackgroundColor
               then setProperty backgroundColorProp
                      (case newBackgroundColor of None \<Rightarrow> [] | Some b \<Rightarrow> b) st'
               else st')
      else st)"

text \<open>
  The callback. A rule that is not a style rule has no \<open>style\<close> (or no \<open>selectorText\<close>):
  the property access throws a TypeError.
\<close>

fun tidyRule :: "jsString option \<Rightarrow> jsString option \<Rightarrow> nat \<Rightarrow> cssRule \<Rightarrow> error + cssRule" where
  "tidyRule newFonts newBackgroundColor n (AtRule t) = Inl TypeError"
| "tidyRule newFonts newBackgroundColor n (StyleRule sel st) =
     Inr (StyleRule sel
       (avoidPageBreak newBackgroundColor sel
         (quoteFontFamily (replaceDefaultFont newFonts n st))))"

text \<open>\<open>forEach\<close>: the rules in order; the first throw ends the pass.\<close>

fun tidyRules :: "jsString option \<Rightarrow> jsString option \<Rightarrow> nat \<Rightarrow> cssRule list \<Rightarrow> error + cssRule list" where
  "tidyRules newFonts newBackgroundColor n [] = Inr []"
| "tidyRules newFonts newBackgroundColor n (r # rs) =
     (case tidyRule newFonts newBackgroundColor n r of
        Inl e \<Rightarrow> Inl e
      | Inr r' \<Rightarrow>
          (case tidyRules newFonts newBackgroundColor n rs of
             Inl e \<Rightarrow> Inl e
           | Inr rs' \<Rightarrow> Inr (r' # rs')))"

section \<open>Stylesheets that need no quoting\<close>




section \<open>The document (tidyCss, lines 26 to 57 and 111 to 120)\<close>

text \<open>
  The tree jsdom parses: an element with its tag, attributes and children, a text node,
  a comment. An HTML style element holds raw text only and has a constructor of its
  own, with its text; \<open>innerHTML\<close> of it is that text. (Style elements of foreign
  content, inside SVG, are outside the model.)
\<close>

datatype node =
  Element jsString "(jsString \<times> jsString) list" "node list"
| Style "(jsString \<times> jsString) list" jsString
| Text jsString
| Comment jsString

text \<open>
  \<open>querySelectorAll("style")\<close>: the style elements in document order, each given by its
  \<open>innerHTML\<close>.
\<close>

fun styleElements :: "node list \<Rightarrow> jsString list" where
  "styleElements [] = []"
| "styleElements (Element t a cs # ns) = styleElements cs @ styleElements ns"
| "styleElements (Style a s # ns) = s # styleElements ns"
| "styleElements (Text s # ns) = styleElements ns"
| "styleElements (Comment s # ns) = styleElements ns"

text \<open>\<open>element.remove()\<close> for every style element.\<close>

fun removeStyles :: "node list \<Rightarrow> node list" where
  "removeStyles [] = []"
| "removeStyles (Element t a cs # ns) = Element t a (removeStyles cs) # removeStyles ns"
| "removeStyles (Style a s # ns) = removeStyles ns"
| "removeStyles (Text s # ns) = Text s # removeStyles ns"
| "removeStyles (Comment s # ns) = Comment s # removeStyles ns"

text \<open>
  A parsed document always has a head: the children of the root element before the
  head, the children of the head, and the children of the root after the head (the
  body among them). The doctype and the attributes of the root and the head are never
  touched and are left out.
\<close>

record document =
  beforeHead :: "node list"
  headChildren :: "node list"
  afterHead :: "node list"

definition docStyles :: "document \<Rightarrow> jsString list" where
  "docStyles d =
     styleElements (beforeHead d) @ styleElements (headChildren d)
       @ styleElements (afterHead d)"

text \<open>
  \<open>s.replace(/^\s*[\r\n]/gm, "")\<close>. At the start of a line the expression matches the
  white space up to the last CR or LF of the run of white space that starts there;
  \<open>blankPrefix\<close> is the length of that match, 0 when there is none. The scan carries
  whether it stands at the start of a line and how many code units of a match are still
  to skip.
\<close>

definition isLineTerminator :: "codeUnit \<Rightarrow> bool" where
  "isLineTerminator c = (c = 0x0A \<or> c = 0x0D \<or> c = 0x2028 \<or> c = 0x2029)"

definition blankPrefix :: "jsString \<Rightarrow> nat" where
  "blankPrefix s =
     (let run = takeWhile isWhiteSpace s
      in length run - length (takeWhile (\<lambda>c. c \<noteq> 0x0A \<and> c \<noteq> 0x0D) (rev run)))"

fun removeBlankLines_from :: "bool \<Rightarrow> nat \<Rightarrow> jsString \<Rightarrow> jsString" where
  "removeBlankLines_from b skip [] = []"
| "removeBlankLines_from b (Suc skip) (c # cs) =
     removeBlankLines_from (isLineTerminator c) skip cs"
| "removeBlankLines_from b 0 (c # cs) =
     (if b \<and> 0 < blankPrefix (c # cs)
      then removeBlankLines_from (isLineTerminator c) (blankPrefix (c # cs) - 1) cs
      else c # removeBlankLines_from (isLineTerminator c) 0 cs)"

definition removeBlankLines :: "jsString \<Rightarrow> jsString" where
  "removeBlankLines s = removeBlankLines_from True 0 s"

text \<open>
  What tidyCss calls in its dependencies, as parameters: \<open>CSSOM.parse\<close> (the rules of a
  style text, or the error it throws on a text it cannot parse),
  \<open>cssCleaner.minify(text).styles\<close>, and the getter and the setter of
  \<open>head.innerHTML\<close> (jsdom's serializer and fragment parser).
\<close>

record libs =
  CSSOM_parse :: "jsString \<Rightarrow> error + cssRule list"
  minify :: "jsString \<Rightarrow> jsString"
  innerHTML_of :: "node list \<Rightarrow> jsString"
  parse_innerHTML :: "jsString \<Rightarrow> node list"

record tidyOptions =
  backgroundColor :: "jsString option"
  fonts :: "jsString option"

definition noOptions :: tidyOptions where
  "noOptions = \<lparr> backgroundColor = None, fonts = None \<rparr>"

text \<open>\<open>let x; if (v) { x = String(v); }\<close>\<close>

definition ifTruthy :: "jsString option \<Rightarrow> jsString option" where
  "ifTruthy v = (if truthy v then v else None)"

text \<open>
  tidyCss between \<open>new JSDOM(html)\<close> and \<open>dom.serialize()\<close>. \<open>styles\<close> is read a second
  time only after a style element was created; the list is static, so its length is
  the number of style elements the document had (one when the element was created).
\<close>

definition tidyCss_dom :: "libs \<Rightarrow> tidyOptions \<Rightarrow> document \<Rightarrow> error + document" where
  "tidyCss_dom L opts d =
     (let newBackgroundColor = ifTruthy (backgroundColor opts);
          newFonts = ifTruthy (fonts opts);
          d1 = (if docStyles d = [] \<and> (truthy newFonts \<or> truthy newBackgroundColor)
                then d \<lparr> headChildren := headChildren d @ [Style [] (js ''div {}'')] \<rparr>
                else d);
          styles = docStyles d1;
          combinedStyle = concat styles;
          d2 = \<lparr> beforeHead = removeStyles (beforeHead d1),
                 headChildren = removeStyles (headChildren d1),
                 afterHead = removeStyles (afterHead d1) \<rparr>;
          d3 = d2 \<lparr> headChildren :=
                 parse_innerHTML L (removeBlankLines (innerHTML_of L (headChildren d2))) \<rparr>
      in case CSSOM_parse L combinedStyle of
           Inl e \<Rightarrow> Inl e
         | Inr cssRules \<Rightarrow>
             (case tidyRules newFonts newBackgroundColor (length styles) cssRules of
                Inl e \<Rightarrow> Inl e
              | Inr rules \<Rightarrow>
                  Inr (d3 \<lparr> headChildren :=
                         headChildren d3 @ [Style [] (minify L (sheet_toString rules))] \<rparr>)))"

text \<open>The pass over what CSSOM.parse returned, when it returned.\<close>

definition tidyParsed :: "jsString option \<Rightarrow> jsString option \<Rightarrow> nat
    \<Rightarrow> error + cssRule list \<Rightarrow> error + cssRule list" where
  "tidyParsed newFonts newBackgroundColor n parsed =
     (case parsed of
        Inl e \<Rightarrow> Inl e
      | Inr cssRules \<Rightarrow> tidyRules newFonts newBackgroundColor n cssRules)"

text \<open>The function the server is decorated with; jsdom parses and serializes.\<close>

record jsdom =
  JSDOM_parse :: "jsString \<Rightarrow> document"
  JSDOM_serialize :: "document \<Rightarrow> jsString"

definition tidyCss :: "jsdom \<Rightarrow> libs \<Rightarrow> jsString \<Rightarrow> tidyOptions \<Rightarrow> error + jsString" where
  "tidyCss J L html opts =
     (case tidyCss_dom L opts (JSDOM_parse J html) of
        Inl e \<Rightarrow> Inl e
      | Inr d \<Rightarrow> Inr (JSDOM_serialize J d))"

text \<open>
  Two documents to try the theorems on: a head with the style blocks
  \<open>div{color:red}\<close> and \<open>p{color:blue}\<close> and nothing else, and a head with no child.
  With them, the libraries where the two documents need them: CSSOM parses the
  two blocks into two rules of one declaration each and the empty text into no rule;
  the head without its style elements has no child, serializes to the empty string
  and is parsed back to no child. The minifier \<open>m\<close> is any function.
\<close>

definition exampleDoc :: document where
  "exampleDoc =
     \<lparr> beforeHead = [],
       headChildren = [Style [] (js ''div{color:red}''), Style [] (js ''p{color:blue}'')],
       afterHead = [Element (js ''body'') [] [Text (js ''Hello'')]] \<rparr>"

definition plainDoc :: document where
  "plainDoc =
     \<lparr> beforeHead = [], headChildren = [],
       afterHead = [Element (js ''body'') [] [Text (js ''Hello'')]] \<rparr>"

definition exampleLibs :: "(jsString \<Rightarrow> jsString) \<Rightarrow> libs" where
  "exampleLibs m =
     \<lparr> CSSOM_parse = (\<lambda>s. if s = js ''div{color:red}p{color:blue}''
          then Inr [StyleRule (js ''div'') (parsedStyle [(js ''color'', js ''red'')]),
                    StyleRule (js ''p'') (parsedStyle [(js ''color'', js ''blue'')])]
          else Inr []),
       minify = m,
       innerHTML_of = (\<lambda>ns. []),
       parse_innerHTML = (\<lambda>s. []) \<rparr>"

section \<open>The temporary directory (the rtf-to-html plugin)\<close>

text \<open>
  The file system, as far as the plugin sees it: the paths that exist, each with its
  bytes. Paths are strings; \<open>upath.joinSafe(directory, name)\<close>, for a directory that
  \<open>normalizeTrim\<close> has normalised and a name that is one segment, puts a slash
  between the two.
\<close>

type_synonym byte = "8 word"
type_synonym path = jsString
type_synonym fileSystem = "(path \<times> byte list) list"

definition slash :: codeUnit where
  "slash = 0x2F"

definition joinSafe :: "path \<Rightarrow> jsString \<Rightarrow> path" where
  "joinSafe dir name = dir @ slash # name"

definition startsWith :: "jsString \<Rightarrow> jsString \<Rightarrow> bool" where
  "startsWith s p = (take (length p) s = p)"

text \<open>
  \<open>glob.sync(prefix + "*")\<close> for a prefix with no glob character in it: every existing
  path, once, that starts with the prefix and goes on within the same directory (the
  star matches no slash).
\<close>

definition globSync_star :: "path \<Rightarrow> fileSystem \<Rightarrow> path list" where
  "globSync_star pre fs =
     remdups (filter (\<lambda>f. startsWith f pre \<and> slash \<notin> set (drop (length pre) f))
       (map fst fs))"

text \<open>\<open>fs.writeFile\<close> creates the file or replaces its bytes.\<close>

definition writeFile :: "path \<Rightarrow> byte list \<Rightarrow> fileSystem \<Rightarrow> fileSystem" where
  "writeFile f b fs = AList.update f b fs"

text \<open>\<open>fs.unlink\<close> rejects with ENOENT when the path does not exist.\<close>

definition unlink :: "path \<Rightarrow> fileSystem \<Rightarrow> error + fileSystem" where
  "unlink f fs = (if f \<in> fst ` set fs then Inr (AList.delete f fs) else Inl ENOENT)"

text \<open>
  \<open>Promise.all(files.map((file) => fs.unlink(file)))\<close>: every unlink is started, and
  runs whether or not another one fails; the promise rejects with the first failure,
  if there is one. The result is that failure and the file system after every unlink
  has run.
\<close>

fun unlinkAll :: "path list \<Rightarrow> fileSystem \<Rightarrow> error option \<times> fileSystem" where
  "unlinkAll [] fs = (None, fs)"
| "unlinkAll (f # files) fs =
     (case unlink f fs of
        Inl e \<Rightarrow> (Some e, snd (unlinkAll files fs))
      | Inr fs1 \<Rightarrow> unlinkAll files fs1)"

record docLocation =
  directory :: path
  rtf :: path
  id' :: jsString

record conversionResults =
  body :: "jsString option"
  docLocation :: "docLocation option"

text \<open>
  What a reply carries: the converted document, or an error (the framework serializes
  it). The events of a hook, in the order the code brings them about: the unlink of a
  path, and the return of the payload, which hands it to the framework to be sent.
\<close>

datatype payload =
  Html jsString
| ErrorReply error

datatype event =
  Unlink path
| HandOff payload

text \<open>
  The onSend hook, after \<open>glob.sync\<close> has listed the files: it awaits the unlinks and
  then returns the payload; when an unlink rejects, the hook rejects and returns no
  payload.
\<close>

definition removeFiles :: "path list \<Rightarrow> payload \<Rightarrow> fileSystem
    \<Rightarrow> (error + payload) \<times> fileSystem \<times> event list" where
  "removeFiles files p fs =
     (case unlinkAll files fs of
        (Some e, fs') \<Rightarrow> (Inl e, fs', map Unlink files)
      | (None, fs') \<Rightarrow> (Inr p, fs', map Unlink files @ [HandOff p]))"

text \<open>The onSend hook (lines 47 to 61); \<open>conv\<close> is \<open>req.conversionResults\<close>.\<close>

definition onSend :: "conversionResults option \<Rightarrow> payload \<Rightarrow> fileSystem
    \<Rightarrow> (error + payload) \<times> fileSystem \<times> event list" where
  "onSend conv p fs =
     (case (case conv of None \<Rightarrow> None | Some c \<Rightarrow> docLocation c) of
        None \<Rightarrow> (Inr p, fs, [HandOff p])
      | Some loc \<Rightarrow>
          removeFiles (globSync_star (joinSafe (directory loc) (id' loc)) fs) p fs)"

section \<open>The route and the request lifecycle\<close>

definition rtfMime :: jsString where
  "rtfMime = js ''application/rtf''"

text \<open>
  \<open>fromBuffer\<close> of the file-type package: undefined for a buffer of at most one byte,
  and else what its signature tables find (the parameter \<open>table\<close>: the media type, or
  \<open>None\<close> for undefined).
\<close>

definition fromBuffer :: "(byte list \<Rightarrow> jsString option) \<Rightarrow> byte list \<Rightarrow> jsString option" where
  "fromBuffer table buf = (if 1 < length buf then table buf else None)"

text \<open>The signature of an RTF file, \<open>{\rtf\<close>, that file-type looks for.\<close>

definition rtfSignature :: "byte list" where
  "rtfSignature = [0x7B, 0x5C, 0x72, 0x74, 0x66]"

text \<open>The content type parser of the route (lines 29 to 43).\<close>

definition contentTypeParser :: "(byte list \<Rightarrow> jsString option) \<Rightarrow> byte list
    \<Rightarrow> error + byte list" where
  "contentTypeParser table bytes =
     (if fromBuffer table bytes \<noteq> Some rtfMime then Inl UnsupportedMediaType
      else Inr bytes)"

text \<open>The status codes of \<open>server.httpErrors\<close>; any other error is a 500.\<close>

fun statusCode :: "error \<Rightarrow> nat" where
  "statusCode UnsupportedMediaType = 415"
| "statusCode NotAcceptable = 406"
| "statusCode BadRequest = 400"
| "statusCode e = 500"

text \<open>
  The collaborators of the route, as parameters: the signature tables of file-type,
  the UnRTF converter (it reads the staged file and may leave files of its own), the
  fix-utf8 package, the tidyHtml decorator with its two options, and what tidyCss
  needs.
\<close>

datatype convertResult =
  Converted jsString
| ConvertFailed jsString

record collaborators =
  signatures :: "byte list \<Rightarrow> jsString option"
  unrtf_convert :: "path \<Rightarrow> fileSystem \<Rightarrow> convertResult \<times> fileSystem"
  fixUtf8 :: "jsString \<Rightarrow> jsString"
  tidyHtml :: "jsString \<Rightarrow> jsString option \<Rightarrow> bool option \<Rightarrow> error + jsString"
  dom :: jsdom
  cssLibs :: libs

text \<open>
  A request: whether its Accept header admits \<open>text/html\<close>, its body (the empty buffer
  when the body is absent), and its query.
\<close>

record request =
  acceptsHtml :: bool
  payloadBytes :: "byte list"
  language :: "jsString option"
  removeAlt :: "bool option"
  queryFonts :: "jsString option"
  queryBackgroundColor :: "jsString option"

text \<open>
  The preHandler hook (lines 63 to 106). \<open>uuid\<close> is what \<open>randomUUID()\<close> returns. The
  location is recorded and the body staged before the converter runs, so both stay
  when it fails.
\<close>

definition preHandler :: "collaborators \<Rightarrow> path \<Rightarrow> jsString \<Rightarrow> byte list
    \<Rightarrow> conversionResults \<Rightarrow> fileSystem
    \<Rightarrow> (error + unit) \<times> conversionResults \<times> fileSystem" where
  "preHandler E dir uuid bytes conv fs =
     (let tempFile = joinSafe dir (uuid @ js ''.rtf'');
          conv1 = conv \<lparr> docLocation :=
                    Some \<lparr> directory = dir, rtf = tempFile, id' = uuid \<rparr> \<rparr>;
          fs1 = writeFile tempFile bytes fs
      in case unrtf_convert E tempFile fs1 of
           (ConvertFailed msg, fs2) \<Rightarrow>
             (Inl (if includesStr msg (js ''File is not the correct media type'')
                   then BadRequest else ConverterError msg), conv1, fs2)
         | (Converted html, fs2) \<Rightarrow>
             (Inr (), conv1 \<lparr> body := Some (fixUtf8 E html) \<rparr>, fs2))"

text \<open>The handler of the route (lines 66 to 79).\<close>

definition handler :: "collaborators \<Rightarrow> request \<Rightarrow> conversionResults \<Rightarrow> error + jsString" where
  "handler E rq conv =
     (case body conv of
        None \<Rightarrow> Inl TypeError
      | Some html \<Rightarrow>
          (case tidyHtml E html (language rq) (removeAlt rq) of
             Inl e \<Rightarrow> Inl e
           | Inr tidied \<Rightarrow>
               tidyCss (dom E) (cssLibs E) tidied
                 \<lparr> backgroundColor = queryBackgroundColor rq, fonts = queryFonts rq \<rparr>))"

text \<open>
  The lifecycle of a POST request with the content type \<open>application/rtf\<close>, as the
  framework runs the hooks: the onRequest hooks (the plugin sets
  \<open>req.conversionResults\<close>, the route checks the Accept header), the content type
  parser, the preHandler hook, the handler, and the onSend hook on the payload of the
  reply; a throw skips to the reply of the error, which passes the onSend hook too.
  What other plugins add to the lifecycle (CORS, the bearer token, the validation of
  the query against the schema) writes no file and is left out.
\<close>

definition handleRequest :: "collaborators \<Rightarrow> path \<Rightarrow> jsString \<Rightarrow> request \<Rightarrow> fileSystem
    \<Rightarrow> (error + payload) \<times> fileSystem \<times> event list" where
  "handleRequest E dir uuid rq fs =
     (let conv0 = \<lparr> body = None, docLocation = None \<rparr>
      in if \<not> acceptsHtml rq then onSend (Some conv0) (ErrorReply NotAcceptable) fs
         else
           (case contentTypeParser (signatures E) (payloadBytes rq) of
              Inl e \<Rightarrow> onSend (Some conv0) (ErrorReply e) fs
            | Inr bytes \<Rightarrow>
                (case preHandler E dir uuid bytes conv0 fs of
                   (Inl e, conv1, fs1) \<Rightarrow> onSend (Some conv1) (ErrorReply e) fs1
                 | (Inr u, conv1, fs1) \<Rightarrow>
                     (case handler E rq conv1 of
                        Inl e \<Rightarrow> onSend (Some conv1) (ErrorReply e) fs1
                      | Inr html \<Rightarrow> onSend (Some conv1) (Html html) fs1))))"



section \<open>Basic facts\<close>

lemma split_on_nonempty: "split_on sep s \<noteq> []"
  by (induction s) (auto split: list.splits)

lemma split_on_append_sep: "split_on sep (p @ sep # q) = split_on sep p @ split_on sep q"
  by (induction p) (auto split: list.splits simp: split_on_nonempty)

lemma split_on_no_sep: "sep \<notin> set a \<Longrightarrow> split_on sep a = [a]"
  by (induction a) auto

lemma split_on_suffix:
  "sep \<notin> set a \<Longrightarrow>
   split_on sep (p @ a) = butlast (split_on sep p) @ [last (split_on sep p) @ a]"
  by (induction p) (auto split: list.splits simp: split_on_nonempty split_on_no_sep)

lemma split_on_prefix:
  "sep \<notin> set b \<Longrightarrow>
   split_on sep (b @ q) = (b @ hd (split_on sep q)) # tl (split_on sep q)"
  by (induction b) (auto split: list.splits simp: split_on_nonempty)

lemma length_split_on: "length (split_on sep s) = Suc (count_list s sep)"
  by (induction s) (auto split: list.splits simp: split_on_nonempty)

lemma mem_dropWhile: "x \<in> set xs \<Longrightarrow> \<not> P x \<Longrightarrow> x \<in> set (dropWhile P xs)"
  by (induction xs) auto

lemma set_trim: "c \<in> set s \<Longrightarrow> \<not> isWhiteSpace c \<Longrightarrow> c \<in> set (trim s)"
  unfolding trim_def by (simp add: mem_dropWhile)

lemma dquote_not_white: "\<not> isWhiteSpace dquote"
  by (simp add: isWhiteSpace_def dquote_def)

lemma dquote_not_plain: "\<not> isPlainChar dquote"
  by (simp add: isPlainChar_def dquote_def)


lemma needsQuoting_dquote: "dquote \<in> set s \<Longrightarrow> needsQuoting (trim s)"
  unfolding needsQuoting_def list_ex_iff
  using set_trim dquote_not_white dquote_not_plain by blast

lemma parseFont_dquote:
  "dquote \<in> set s \<Longrightarrow> parseFont s = cssEsc (trim (replaceAll_empty styleClose s))"
  by (simp add: parseFont_def needsQuoting_dquote)

lemma styleGet_setProperty:
  "styleGet (setProperty name v st) name' = (if name' = name then Some v else styleGet st name')"
  by (simp add: styleGet_def setProperty_def update_conv')

lemma tidyRule_declared_font_family:
  assumes "styleGet st fontFamily = Some v" and "v \<noteq> []"
  shows "\<exists>st'. tidyRule None nb n (StyleRule sel st) = Inr (StyleRule sel st')
            \<and> styleGet st' fontFamily = Some (parseFontFamily v)"
  using assms
  by (auto simp: Let_def truthy_def styleGet_setProperty getPropertyValue_def
       replaceDefaultFont_def quoteFontFamily_def avoidPageBreak_def
       fontFamily_def pageBreakInside_def backgroundColorProp_def js_def)















lemma prop_names_distinct:
  "pageBreakInside \<noteq> fontFamily" "backgroundColorProp \<noteq> fontFamily"
  "backgroundColorProp \<noteq> pageBreakInside"
  by (simp_all add: pageBreakInside_def fontFamily_def backgroundColorProp_def js_def)



lemma avoidPageBreak_get:
  "styleGet (avoidPageBreak nb sel st) fontFamily = styleGet st fontFamily"
  using prop_names_distinct
  by (auto simp: avoidPageBreak_def Let_def styleGet_setProperty)


lemma quoteFontFamily_falsy:
  "\<not> truthy (styleGet st fontFamily) \<Longrightarrow> quoteFontFamily st = st"
  by (simp add: quoteFontFamily_def)




lemma styleElements_append: "styleElements (xs @ ys) = styleElements xs @ styleElements ys"
  by (induction xs rule: styleElements.induct) auto

lemma styleElements_removeStyles: "styleElements (removeStyles ns) = []"
  by (induction ns rule: removeStyles.induct) auto

lemma removeStyles_none: "styleElements ns = [] \<Longrightarrow> removeStyles ns = ns"
  by (induction ns rule: removeStyles.induct) auto

lemma two_rules_text: \<open>
  map_sum id sheet_toString (tidyRules None None 2
     [StyleRule (js ''div'') (parsedStyle [(js ''color'', js ''red'')]),
      StyleRule (js ''p'') (parsedStyle [(js ''color'', js ''blue'')])])
  = Inr (js ''div {color: red; page-break-inside: avoid;}'' @ newline
         # js ''p {color: blue;}'' @ [newline])\<close>
  by code_simp

lemma removeStyles_append: "removeStyles (xs @ ys) = removeStyles xs @ removeStyles ys"
  by (induction xs rule: removeStyles.induct) auto

lemma truthy_ifTruthy: "truthy (ifTruthy v) = truthy v"
  by (simp add: ifTruthy_def truthy_def)

text \<open>
  What tidyCss does to a document, in one equation: the pass runs over the rules CSSOM
  parses from the concatenated style texts (from \<open>div {}\<close> when there is no style
  element and an override is requested), with \<open>n\<close> the number of those style
  elements.
\<close>

lemma tidyCss_dom_pass:
  "tidyCss_dom L opts d =
     (let newFonts = ifTruthy (fonts opts);
          newBackgroundColor = ifTruthy (backgroundColor opts);
          styles = (if docStyles d = [] \<and> (truthy newFonts \<or> truthy newBackgroundColor)
                    then [js ''div {}''] else docStyles d)
      in case tidyParsed newFonts newBackgroundColor (length styles)
                (CSSOM_parse L (concat styles)) of
           Inl e \<Rightarrow> Inl e
         | Inr rules \<Rightarrow>
             Inr \<lparr> beforeHead = removeStyles (beforeHead d),
                   headChildren =
                     parse_innerHTML L (removeBlankLines
                        (innerHTML_of L (removeStyles (headChildren d))))
                     @ [Style [] (minify L (sheet_toString rules))],
                   afterHead = removeStyles (afterHead d) \<rparr>)"
proof -
  define nf where "nf = ifTruthy (fonts opts)"
  define nb where "nb = ifTruthy (backgroundColor opts)"
  define synth where "synth \<longleftrightarrow> docStyles d = [] \<and> (truthy nf \<or> truthy nb)"
  define d1 where "d1 = (if synth
      then d \<lparr> headChildren := headChildren d @ [Style [] (js ''div {}'')] \<rparr> else d)"
  define styles where "styles = (if synth then [js ''div {}''] else docStyles d)"
  have st: "docStyles d1 = styles"
  proof (cases synth)
    case True
    then have "styleElements (beforeHead d) = []" "styleElements (headChildren d) = []"
      "styleElements (afterHead d) = []"
      by (simp_all add: synth_def docStyles_def)
    with True show ?thesis
      by (simp add: d1_def styles_def docStyles_def styleElements_append)
  next
    case False
    then show ?thesis by (simp add: d1_def styles_def)
  qed
  have rm: "removeStyles (beforeHead d1) = removeStyles (beforeHead d)"
    "removeStyles (headChildren d1) = removeStyles (headChildren d)"
    "removeStyles (afterHead d1) = removeStyles (afterHead d)"
    by (simp_all add: d1_def removeStyles_append)
  have "tidyCss_dom L opts d =
      (case tidyParsed nf nb (length styles) (CSSOM_parse L (concat styles)) of
         Inl e \<Rightarrow> Inl e
       | Inr rules \<Rightarrow>
             Inr \<lparr> beforeHead = removeStyles (beforeHead d),
                   headChildren =
                     parse_innerHTML L (removeBlankLines
                        (innerHTML_of L (removeStyles (headChildren d))))
                     @ [Style [] (minify L (sheet_toString rules))],
                   afterHead = removeStyles (afterHead d) \<rparr>)"
    unfolding tidyCss_dom_def Let_def tidyParsed_def
    unfolding nf_def [symmetric] nb_def [symmetric] synth_def [symmetric]
    unfolding d1_def [symmetric] st rm
    by (simp split: sum.splits)
  then show ?thesis
    unfolding Let_def
    unfolding nf_def [symmetric] nb_def [symmetric] synth_def [symmetric]
    unfolding styles_def [symmetric] .
qed

lemma tidyCss_dom_no_override:
  assumes "\<not> truthy (fonts opts)" and "\<not> truthy (backgroundColor opts)"
  shows "tidyCss_dom L opts d =
     (case tidyParsed None None (length (docStyles d)) (CSSOM_parse L (concat (docStyles d))) of
        Inl e \<Rightarrow> Inl e
      | Inr rules \<Rightarrow>
          Inr \<lparr> beforeHead = removeStyles (beforeHead d),
                headChildren =
                  parse_innerHTML L (removeBlankLines
                     (innerHTML_of L (removeStyles (headChildren d))))
                  @ [Style [] (minify L (sheet_toString rules))],
                afterHead = removeStyles (afterHead d) \<rparr>)"
proof -
  have "\<not> truthy None" by (simp add: truthy_def)
  with assms show ?thesis by (simp add: tidyCss_dom_pass Let_def ifTruthy_def)
qed

lemma noOptions_falsy:
  "\<not> truthy (fonts noOptions)" "\<not> truthy (backgroundColor noOptions)"
  by (simp_all add: noOptions_def truthy_def)











lemma onSend_unlocated:
  "onSend (Some \<lparr> body = None, docLocation = None \<rparr>) p fs = (Inr p, fs, [HandOff p])"
  by (simp add: onSend_def)



section \<open>Font family names: quoting, and what is stripped\<close>

text \<open>
  C3 (the code at a failing input). The override \<open></sty</style>le>\<close> for the fonts holds
  the closing sequence once, inside another one that it breaks in two. The replacement
  runs once over the name, takes the inner occurrence out and leaves \<open></style>\<close>; the
  name is then quoted, and the text handed to the minifier for the style element holds
  the closing sequence. A document brings the same name without any option, its
  style text cut in two between \<open></sty\<close> and \<open>le>\<close>: the style elements
  \<open>p{font-family:a</sty</sty\<close> and \<open>le>le>}\<close> concatenate to a rule whose font-family is
  \<open>a</sty</style>le>\<close>.
\<close>

theorem style_close_survives_single_pass: \<open>
  parseFont (js ''</sty</style>le>'') = js ''"</style>"''
  \<and> map_sum id sheet_toString
       (tidyRules (Some (js ''</sty</style>le>'')) None 1 [StyleRule (js ''div'') emptyStyle])
     = Inr (js ''div {font-family: "</style>"; page-break-inside: avoid;}'' @ [newline])
  \<and> includesStr (js ''div {font-family: "</style>"; page-break-inside: avoid;}'') styleClose
  \<and> concat [js ''p{font-family:a</sty</sty'', js ''le>le>}'']
     = js ''p{font-family:a</sty</style>le>}''
  \<and> map_sum id sheet_toString
       (tidyRules None None 2
          [StyleRule (js ''p'') (parsedStyle [(fontFamily, js ''a</sty</style>le>'')])])
     = Inr (js ''p {font-family: "a</style>";}'' @ [newline])\<close>
  by code_simp




text \<open>
  C10. The value is split on every comma, inside double quotes as well. For every style
  rule whose font-family holds a double-quoted name with a comma in it (\<open>a\<close> and \<open>b\<close>
  are the parts of the name before and after the comma), the name is cut at the comma:
  the piece that ends with \<open>"a\<close> and the piece that starts with \<open>b"\<close> are two names,
  each is escaped and wrapped in double quotes of its own, and the value has one name
  more than it has commas. \<open>"Foo, Bar"\<close> becomes \<open>"\"Foo", "Bar\""\<close>.
\<close>

theorem font_family_split_inside_quotes:
  assumes "styleGet st fontFamily = Some (p @ dquote # a @ comma # b @ dquote # q)"
    and "comma \<notin> set a" and "comma \<notin> set b"
  shows \<open>(\<exists>st' xs ys f g.
            tidyRule None nb n (StyleRule sel st) = Inr (StyleRule sel st')
          \<and> split_on comma (p @ dquote # a @ comma # b @ dquote # q)
              = xs @ [f @ dquote # a, b @ dquote # g] @ ys
          \<and> styleGet st' fontFamily
              = Some (join (js '', '')
                  (map parseFont xs
                   @ [cssEsc (trim (replaceAll_empty styleClose (f @ dquote # a))),
                      cssEsc (trim (replaceAll_empty styleClose (b @ dquote # g)))]
                   @ map parseFont ys)))
       \<and> length (split_on comma (p @ dquote # a @ comma # b @ dquote # q))
           = Suc (count_list (p @ dquote # a @ comma # b @ dquote # q) comma)
       \<and> parseFontFamily (js ''"Foo, Bar"'')
           = js ''"'' @ backslash # js ''"Foo", "Bar'' @ backslash # js ''""''\<close>
proof -
  let ?v = "p @ dquote # a @ comma # b @ dquote # q"
  let ?xs = "butlast (split_on comma p)" and ?f = "last (split_on comma p)"
  let ?g = "hd (split_on comma q)" and ?ys = "tl (split_on comma q)"
  have ne: "?v \<noteq> []" by simp
  from tidyRule_declared_font_family [OF assms(1) ne]
  obtain st' where st': "tidyRule None nb n (StyleRule sel st) = Inr (StyleRule sel st')"
    "styleGet st' fontFamily = Some (parseFontFamily ?v)"
    by blast
  have dc: "dquote \<noteq> comma" by (simp add: dquote_def comma_def)
  have left: "split_on comma (p @ dquote # a) = ?xs @ [?f @ dquote # a]"
    using split_on_suffix [of comma "dquote # a" p] assms(2) dc by simp
  have right: "split_on comma (b @ dquote # q) = (b @ dquote # ?g) # ?ys"
    using split_on_prefix [of comma "b @ [dquote]" q] assms(3) dc by simp
  have "?v = (p @ dquote # a) @ comma # (b @ dquote # q)" by simp
  then have "split_on comma ?v = split_on comma (p @ dquote # a) @ split_on comma (b @ dquote # q)"
    using split_on_append_sep [of comma "p @ dquote # a" "b @ dquote # q"] by simp
  then have split: "split_on comma ?v = ?xs @ [?f @ dquote # a, b @ dquote # ?g] @ ?ys"
    by (simp add: left right)
  have "parseFontFamily ?v = join (js '', '')
          (map parseFont ?xs
           @ [cssEsc (trim (replaceAll_empty styleClose (?f @ dquote # a))),
              cssEsc (trim (replaceAll_empty styleClose (b @ dquote # ?g)))]
           @ map parseFont ?ys)"
    unfolding parseFontFamily_def split by (simp add: parseFont_dquote)
  with st' split have first: "\<exists>st' xs ys f g.
            tidyRule None nb n (StyleRule sel st) = Inr (StyleRule sel st')
          \<and> split_on comma ?v = xs @ [f @ dquote # a, b @ dquote # g] @ ys
          \<and> styleGet st' fontFamily
              = Some (join (js '', '')
                  (map parseFont xs
                   @ [cssEsc (trim (replaceAll_empty styleClose (f @ dquote # a))),
                      cssEsc (trim (replaceAll_empty styleClose (b @ dquote # g)))]
                   @ map parseFont ys))"
    by metis
  have ex: \<open>parseFontFamily (js ''"Foo, Bar"'')
           = js ''"'' @ backslash # js ''"Foo", "Bar'' @ backslash # js ''""''\<close>
    by code_simp
  from first length_split_on [of comma ?v] ex show ?thesis by blast
qed

theorem font_family_split_inside_quotes_witness: \<open>
  \<exists>st' xs ys f g.
      tidyRule None None 1
        (StyleRule (js ''p'') (parsedStyle [(fontFamily, js ''"Foo, Bar"'')]))
        = Inr (StyleRule (js ''p'') st')
    \<and> split_on comma ([] @ dquote # js ''Foo'' @ comma # js '' Bar'' @ dquote # [])
        = xs @ [f @ dquote # js ''Foo'', js '' Bar'' @ dquote # g] @ ys
    \<and> styleGet st' fontFamily
        = Some (join (js '', '')
            (map parseFont xs
             @ [cssEsc (trim (replaceAll_empty styleClose (f @ dquote # js ''Foo''))),
                cssEsc (trim (replaceAll_empty styleClose (js '' Bar'' @ dquote # g)))]
             @ map parseFont ys))\<close>
proof -
  have get: \<open>styleGet (parsedStyle [(fontFamily, js ''"Foo, Bar"'')]) fontFamily
               = Some ([] @ dquote # js ''Foo'' @ comma # js '' Bar'' @ dquote # [])\<close>
    by code_simp
  have a: "comma \<notin> set (js ''Foo'')" by code_simp
  have b: "comma \<notin> set (js '' Bar'')" by code_simp
  from font_family_split_inside_quotes [OF get a b, of None 1 "js ''p''"] show ?thesis
    by blast
qed

section \<open>The font override, and a second pass\<close>

text \<open>
  C7, as the claim states it, fails twice. The test of the source is
  \<open>styles.length === 1\<close>, on the number of style elements, not of rules. With one style
  element that holds two rules, neither declaring a font-family, both rules get the
  override; with two style elements and one rule in all, the sole rule gets none.
\<close>

theorem font_override_counts_style_elements: \<open>
  map_sum id (map (declaredValue fontFamily))
     (tidyRules (Some (js ''Arial'')) None 1
        [StyleRule (js ''p'') (parsedStyle [(js ''color'', js ''red'')]),
         StyleRule (js ''h1'') (parsedStyle [(js ''color'', js ''blue'')])])
   = Inr [Some (js ''Arial''), Some (js ''Arial'')]
  \<and> map_sum id (map (declaredValue fontFamily))
       (tidyRules (Some (js ''Arial'')) None 2
          [StyleRule (js ''p'') (parsedStyle [(js ''color'', js ''red'')])])
     = Inr [None]\<close>
  by code_simp

text \<open>
  C7, amended. When a font override \<open>f\<close> is configured, the pass sets font-family on
  exactly those style rules that already declare a non-empty font-family, and on every
  style rule when the document has exactly one style element (\<open>n = 1\<close>; the
  synthesized element counts). The value set is the override after the quoting step,
  \<open>parseFontFamily f\<close>. Every other rule keeps the font-family it had: none, or the
  empty one. The \<open>n\<close> that tidyCss runs the pass with is the number of style elements
  of the document, and 1 when it has none and \<open>div {}\<close> is synthesized.
\<close>

theorem font_override_applies:
  assumes "f \<noteq> []"
  shows "(\<exists>st'. tidyRule (Some f) nb n (StyleRule sel st) = Inr (StyleRule sel st')
            \<and> styleGet st' fontFamily
                = (if truthy (styleGet st fontFamily) \<or> n = 1
                   then Some (parseFontFamily f) else styleGet st fontFamily))
     \<and> (\<forall>L opts d. fonts opts = Some f \<longrightarrow>
          tidyCss_dom L opts d =
            (case tidyParsed (Some f) (ifTruthy (backgroundColor opts))
                    (if docStyles d = [] then 1 else length (docStyles d))
                    (CSSOM_parse L
                       (if docStyles d = [] then js ''div {}'' else concat (docStyles d))) of
               Inl e \<Rightarrow> Inl e
             | Inr rules \<Rightarrow>
                 Inr \<lparr> beforeHead = removeStyles (beforeHead d),
                       headChildren =
                         parse_innerHTML L (removeBlankLines
                            (innerHTML_of L (removeStyles (headChildren d))))
                         @ [Style [] (minify L (sheet_toString rules))],
                       afterHead = removeStyles (afterHead d) \<rparr>))"
proof -
  have rule: "\<exists>st'. tidyRule (Some f) nb n (StyleRule sel st) = Inr (StyleRule sel st')
            \<and> styleGet st' fontFamily
                = (if truthy (styleGet st fontFamily) \<or> n = 1
                   then Some (parseFontFamily f) else styleGet st fontFamily)"
  proof (cases "truthy (styleGet st fontFamily) \<or> n = 1")
    case True
    with assms have "replaceDefaultFont (Some f) n st = setProperty fontFamily f st"
      by (simp add: replaceDefaultFont_def truthy_def)
    then have "quoteFontFamily (replaceDefaultFont (Some f) n st)
                 = setProperty fontFamily (parseFontFamily f) (setProperty fontFamily f st)"
      using assms
      by (simp add: quoteFontFamily_def truthy_def styleGet_setProperty getPropertyValue_def)
    with True show ?thesis
      by (simp add: avoidPageBreak_get styleGet_setProperty)
  next
    case False
    then have "quoteFontFamily (replaceDefaultFont (Some f) n st) = st"
      by (simp add: replaceDefaultFont_def quoteFontFamily_falsy)
    with False show ?thesis
      by (simp add: avoidPageBreak_get)
  qed
  have t: "truthy (Some f)" using assms by (simp add: truthy_def)
  have doc: "\<forall>L opts d. fonts opts = Some f \<longrightarrow>
          tidyCss_dom L opts d =
            (case tidyParsed (Some f) (ifTruthy (backgroundColor opts))
                    (if docStyles d = [] then 1 else length (docStyles d))
                    (CSSOM_parse L
                       (if docStyles d = [] then js ''div {}'' else concat (docStyles d))) of
               Inl e \<Rightarrow> Inl e
             | Inr rules \<Rightarrow>
                 Inr \<lparr> beforeHead = removeStyles (beforeHead d),
                       headChildren =
                         parse_innerHTML L (removeBlankLines
                            (innerHTML_of L (removeStyles (headChildren d))))
                         @ [Style [] (minify L (sheet_toString rules))],
                       afterHead = removeStyles (afterHead d) \<rparr>)"
    using t by (auto simp: tidyCss_dom_pass Let_def ifTruthy_def)
  from rule doc show ?thesis by blast
qed

theorem font_override_applies_witness: \<open>
  \<exists>st'. tidyRule (Some (js ''Arial'')) None 2
          (StyleRule (js ''p'') (parsedStyle [(fontFamily, js ''Times'')]))
        = Inr (StyleRule (js ''p'') st')
      \<and> styleGet st' fontFamily = Some (js ''Arial'')\<close>
proof -
  have ne: "js ''Arial'' \<noteq> []" by (simp add: js_def)
  have t: "truthy (styleGet (parsedStyle [(fontFamily, js ''Times'')]) fontFamily)"
    by code_simp
  have v: "parseFontFamily (js ''Arial'') = js ''Arial''"
    by code_simp
  from font_override_applies [OF ne, of None 2 "js ''p''"
      "parsedStyle [(fontFamily, js ''Times'')]"]
  have "\<exists>st'. tidyRule (Some (js ''Arial'')) None 2
          (StyleRule (js ''p'') (parsedStyle [(fontFamily, js ''Times'')]))
        = Inr (StyleRule (js ''p'') st')
      \<and> styleGet st' fontFamily
          = (if truthy (styleGet (parsedStyle [(fontFamily, js ''Times'')]) fontFamily)
                \<or> (2::nat) = 1
             then Some (parseFontFamily (js ''Arial''))
             else styleGet (parsedStyle [(fontFamily, js ''Times'')]) fontFamily)"
    by (rule conjunct1)
  with t v show ?thesis by simp
qed




section \<open>The single style element\<close>

text \<open>
  C6. For every document whose style elements are exactly \<open>div{color:red}\<close> and
  \<open>p{color:blue}\<close>, in this order, when CSSOM parses their concatenation into the two
  rules and the head re-parsed without its style elements holds no style element,
  tidyCss with no option succeeds, and its output has exactly one style element, the
  last child of the head. The text of that element is the minifier's output for
  \<open>div {color: red; page-break-inside: avoid;}\<close> and \<open>p {color: blue;}\<close>, a line each:
  both rules, with page-break-inside in the one div rule.
\<close>

theorem two_style_blocks_become_one:
  assumes styles: "docStyles d = [js ''div{color:red}'', js ''p{color:blue}'']"
    and parsed: "CSSOM_parse L (js ''div{color:red}p{color:blue}'')
        = Inr [StyleRule (js ''div'') (parsedStyle [(js ''color'', js ''red'')]),
               StyleRule (js ''p'') (parsedStyle [(js ''color'', js ''blue'')])]"
    and head: "styleElements (parse_innerHTML L (removeBlankLines
                 (innerHTML_of L (removeStyles (headChildren d))))) = []"
  shows "\<exists>d'. tidyCss_dom L noOptions d = Inr d'
     \<and> docStyles d'
         = [minify L (js ''div {color: red; page-break-inside: avoid;}'' @ newline
              # js ''p {color: blue;}'' @ [newline])]
     \<and> last (headChildren d')
         = Style [] (minify L (js ''div {color: red; page-break-inside: avoid;}'' @ newline
              # js ''p {color: blue;}'' @ [newline]))"
proof -
  define R where "R = [StyleRule (js ''div'') (parsedStyle [(js ''color'', js ''red'')]),
           StyleRule (js ''p'') (parsedStyle [(js ''color'', js ''blue'')])]"
  define T where "T = js ''div {color: red; page-break-inside: avoid;}'' @ newline
         # js ''p {color: blue;}'' @ [newline]"
  define H where "H = parse_innerHTML L (removeBlankLines
                 (innerHTML_of L (removeStyles (headChildren d))))"
  have cat: "concat (docStyles d) = js ''div{color:red}p{color:blue}''"
    by (simp add: styles js_def)
  have p: "CSSOM_parse L (concat (docStyles d)) = Inr R"
    by (simp only: cat parsed R_def)
  have n: "length (docStyles d) = 2"
    by (simp add: styles)
  from two_rules_text obtain rs where
    rs: "tidyRules None None 2 R = Inr rs" and tx: "sheet_toString rs = T"
    unfolding R_def T_def
    by (cases "tidyRules None None 2
         [StyleRule (js ''div'') (parsedStyle [(js ''color'', js ''red'')]),
          StyleRule (js ''p'') (parsedStyle [(js ''color'', js ''blue'')])]") auto
  have out: "tidyCss_dom L noOptions d =
      Inr \<lparr> beforeHead = removeStyles (beforeHead d),
            headChildren = H @ [Style [] (minify L T)],
            afterHead = removeStyles (afterHead d) \<rparr>"
    unfolding tidyCss_dom_no_override [OF noOptions_falsy] p n H_def
    by (simp add: tidyParsed_def rs tx)
  have "docStyles \<lparr> beforeHead = removeStyles (beforeHead d),
            headChildren = H @ [Style [] (minify L T)],
            afterHead = removeStyles (afterHead d) \<rparr> = [minify L T]"
    using head
    by (simp add: docStyles_def styleElements_append styleElements_removeStyles H_def)
  with out show ?thesis
    unfolding T_def by simp
qed

theorem two_style_blocks_become_one_witness:
  "\<forall>m. \<exists>d'. tidyCss_dom (exampleLibs m) noOptions exampleDoc = Inr d'
     \<and> docStyles d'
         = [m (js ''div {color: red; page-break-inside: avoid;}'' @ newline
              # js ''p {color: blue;}'' @ [newline])]
     \<and> last (headChildren d')
         = Style [] (m (js ''div {color: red; page-break-inside: avoid;}'' @ newline
              # js ''p {color: blue;}'' @ [newline]))"
proof
  fix m
  have styles: "docStyles exampleDoc = [js ''div{color:red}'', js ''p{color:blue}'']"
    by (simp add: docStyles_def exampleDoc_def)
  have parsed: "CSSOM_parse (exampleLibs m) (js ''div{color:red}p{color:blue}'')
        = Inr [StyleRule (js ''div'') (parsedStyle [(js ''color'', js ''red'')]),
               StyleRule (js ''p'') (parsedStyle [(js ''color'', js ''blue'')])]"
    by (simp add: exampleLibs_def)
  have head: "styleElements (parse_innerHTML (exampleLibs m) (removeBlankLines
      (innerHTML_of (exampleLibs m) (removeStyles (headChildren exampleDoc))))) = []"
    by (simp add: exampleLibs_def)
  from two_style_blocks_become_one [OF styles parsed head]
  show "\<exists>d'. tidyCss_dom (exampleLibs m) noOptions exampleDoc = Inr d'
     \<and> docStyles d'
         = [m (js ''div {color: red; page-break-inside: avoid;}'' @ newline
              # js ''p {color: blue;}'' @ [newline])]
     \<and> last (headChildren d')
         = Style [] (m (js ''div {color: red; page-break-inside: avoid;}'' @ newline
              # js ''p {color: blue;}'' @ [newline]))"
    by (simp add: exampleLibs_def)
qed

text \<open>
  C9, as the claim states it, fails: for a document with no style element and with no
  option, whatever the libraries return, the output is not the input. When the pass
  succeeds the head of the output ends with a new style element.
\<close>

theorem no_styles_not_a_no_op:
  "\<forall>L. tidyCss_dom L noOptions plainDoc \<noteq> Inr plainDoc"
proof
  fix L
  show "tidyCss_dom L noOptions plainDoc \<noteq> Inr plainDoc"
    unfolding tidyCss_dom_no_override [OF noOptions_falsy]
    by (auto simp: plainDoc_def split: sum.splits)
qed

text \<open>
  C9, amended. For every document whose style elements hold no rule (CSSOM parses
  their concatenation, the empty text when there is no style element, into no rule),
  when neither a font nor a background colour is requested, tidyCss adds no rule. It
  takes the style elements out, re-parses the head from its serialization without the
  blank lines, and appends to the head one style element with the minifier's output
  for the empty sheet; the children of the root outside the head are the input's,
  without their style elements.
\<close>

theorem no_rules_appends_empty_style:
  assumes "\<not> truthy (fonts opts)" and "\<not> truthy (backgroundColor opts)"
    and "CSSOM_parse L (concat (docStyles d)) = Inr []"
  shows "tidyCss_dom L opts d =
      Inr \<lparr> beforeHead = removeStyles (beforeHead d),
            headChildren =
              parse_innerHTML L (removeBlankLines
                 (innerHTML_of L (removeStyles (headChildren d))))
              @ [Style [] (minify L [])],
            afterHead = removeStyles (afterHead d) \<rparr>"
  unfolding tidyCss_dom_no_override [OF assms(1,2)] assms(3)
  by (simp add: tidyParsed_def sheet_toString_def)

theorem no_rules_appends_empty_style_witness:
  "\<forall>m. tidyCss_dom (exampleLibs m) noOptions plainDoc =
      Inr \<lparr> beforeHead = [],
            headChildren = [Style [] (m [])],
            afterHead = [Element (js ''body'') [] [Text (js ''Hello'')]] \<rparr>"
proof
  fix m
  have "CSSOM_parse (exampleLibs m) (concat (docStyles plainDoc)) = Inr []"
    by (simp add: exampleLibs_def docStyles_def plainDoc_def js_def)
  from no_rules_appends_empty_style [OF noOptions_falsy this]
  show "tidyCss_dom (exampleLibs m) noOptions plainDoc =
      Inr \<lparr> beforeHead = [],
            headChildren = [Style [] (m [])],
            afterHead = [Element (js ''body'') [] [Text (js ''Hello'')]] \<rparr>"
    by (simp add: exampleLibs_def plainDoc_def)
qed

section \<open>The sniffing gate\<close>

text \<open>
  C2. For every request whose body is empty or absent (at most one byte is treated the
  same) or is not found to carry the RTF signature by the signature tables, the content
  type parser throws UnsupportedMediaType, which is the status 415, and nothing is
  staged: the preHandler hook does not run, and the file system after the request is
  the file system before it. When the request reaches the parser (its Accept header
  admits \<open>text/html\<close>) the reply is that error, and the onSend hook unlinks nothing.
  Tables that report \<open>application/rtf\<close> only for a buffer that starts with \<open>{\rtf\<close>
  reject every body that does not start with it.
\<close>

theorem non_rtf_body_rejected_before_staging:
  assumes "length (payloadBytes rq) \<le> 1 \<or> signatures E (payloadBytes rq) \<noteq> Some rtfMime"
  shows "contentTypeParser (signatures E) (payloadBytes rq) = Inl UnsupportedMediaType
     \<and> statusCode UnsupportedMediaType = 415
     \<and> fst (snd (handleRequest E dir uuid rq fs)) = fs
     \<and> (acceptsHtml rq \<longrightarrow>
          handleRequest E dir uuid rq fs
            = (Inr (ErrorReply UnsupportedMediaType), fs,
               [HandOff (ErrorReply UnsupportedMediaType)]))
     \<and> (\<forall>table bytes.
          (\<forall>b. table b = Some rtfMime \<longrightarrow> take 5 b = rtfSignature) \<longrightarrow>
          take 5 bytes \<noteq> rtfSignature \<longrightarrow>
          contentTypeParser table bytes = Inl UnsupportedMediaType)"
proof -
  from assms
  have p: "contentTypeParser (signatures E) (payloadBytes rq) = Inl UnsupportedMediaType"
    by (auto simp: contentTypeParser_def fromBuffer_def)
  then have r: "handleRequest E dir uuid rq fs =
      (Inr (ErrorReply (if acceptsHtml rq then UnsupportedMediaType else NotAcceptable)), fs,
       [HandOff (ErrorReply (if acceptsHtml rq then UnsupportedMediaType else NotAcceptable))])"
    by (simp add: handleRequest_def onSend_unlocated)
  have t: "\<forall>table bytes.
          (\<forall>b. table b = Some rtfMime \<longrightarrow> take 5 b = rtfSignature) \<longrightarrow>
          take 5 bytes \<noteq> rtfSignature \<longrightarrow>
          contentTypeParser table bytes = Inl UnsupportedMediaType"
    by (auto simp: contentTypeParser_def fromBuffer_def)
  from p r t show ?thesis by simp
qed

theorem non_rtf_body_rejected_before_staging_witness:
  "\<forall>E dir uuid fs.
     handleRequest E dir uuid
       \<lparr> acceptsHtml = True, payloadBytes = [], language = None, removeAlt = None,
         queryFonts = None, queryBackgroundColor = None \<rparr> fs
     = (Inr (ErrorReply UnsupportedMediaType), fs,
        [HandOff (ErrorReply UnsupportedMediaType)])"
proof (intro allI)
  fix E :: collaborators and dir uuid :: jsString and fs :: fileSystem
  let ?rq = "\<lparr> acceptsHtml = True, payloadBytes = [], language = None, removeAlt = None,
         queryFonts = None, queryBackgroundColor = None \<rparr>"
  have b: "length (payloadBytes ?rq) \<le> 1 \<or> signatures E (payloadBytes ?rq) \<noteq> Some rtfMime"
    by simp
  from non_rtf_body_rejected_before_staging [OF b, of dir uuid fs]
  show "handleRequest E dir uuid ?rq fs
     = (Inr (ErrorReply UnsupportedMediaType), fs,
        [HandOff (ErrorReply UnsupportedMediaType)])"
    by simp
qed

section \<open>Cleanup\<close>







end
